theory Spec2Isabelle
  imports Main
begin

section \<open>Values exchanged with the editor\<close>

text \<open>
  The client of \<^verbatim>\<open>client.py\<close> handles whatever \<^verbatim>\<open>json.loads\<close> returns: Python's
  \<^verbatim>\<open>None\<close>, \<^verbatim>\<open>bool\<close>, \<^verbatim>\<open>int\<close>, \<^verbatim>\<open>str\<close>, \<^verbatim>\<open>list\<close> and \<^verbatim>\<open>dict\<close>. A dict is an association
  list read with \<open>map_of\<close>; Python integers are unbounded, hence \<open>int\<close>. JSON numbers
  with a fraction or an exponent (Python floats) are not part of this model.
\<close>

datatype json =
    JNull
  | JBool bool
  | JInt int
  | JStr string
  | JArr "json list"
  | JObj "(string \<times> json) list"

text \<open>\<^verbatim>\<open>d.get(k, default)\<close> on a dict.\<close>

definition dict_get :: "(string \<times> json) list \<Rightarrow> string \<Rightarrow> json \<Rightarrow> json" where
  "dict_get d k dflt = (case map_of d k of None \<Rightarrow> dflt | Some v \<Rightarrow> v)"

text \<open>Python's truth value of an object, as \<^verbatim>\<open>if x:\<close> tests it.\<close>

fun py_truthy :: "json \<Rightarrow> bool" where
  "py_truthy JNull = False"
| "py_truthy (JBool b) = b"
| "py_truthy (JInt i) = (i \<noteq> 0)"
| "py_truthy (JStr s) = (s \<noteq> [])"
| "py_truthy (JArr xs) = (xs \<noteq> [])"
| "py_truthy (JObj d) = (d \<noteq> [])"

subsection \<open>\<^verbatim>\<open>str\<close> of an integer\<close>

definition digit_char :: "nat \<Rightarrow> char" where
  "digit_char d = ''0123456789'' ! d"

function str_nat :: "nat \<Rightarrow> string" where
  "str_nat n = (if n < 10 then [digit_char n] else str_nat (n div 10) @ [digit_char (n mod 10)])"
  by pat_completeness auto
termination
  by (relation "measure (\<lambda>n. n)") auto

declare str_nat.simps [simp del]

definition str_int :: "int \<Rightarrow> string" where
  "str_int i = (if i < 0 then CHR ''-'' # str_nat (nat (- i)) else str_nat (nat i))"

text \<open>Reading a decimal numeral back, used to show that \<open>str_int\<close> loses nothing.\<close>

definition digit_val :: "char \<Rightarrow> nat" where
  "digit_val ch = of_char ch - 48"

definition nat_of_digits :: "string \<Rightarrow> nat" where
  "nat_of_digits s = foldl (\<lambda>acc ch. 10 * acc + digit_val ch) 0 s"

definition int_of_str :: "string \<Rightarrow> int" where
  "int_of_str s = (case s of
       [] \<Rightarrow> 0
     | ch # r \<Rightarrow> if ch = CHR ''-'' then - int (nat_of_digits r) else int (nat_of_digits s))"

text \<open>
  \<^verbatim>\<open>str(v)\<close> as an f-string applies it to a decoded value. For a list or a dict Python
  prints the \<^verbatim>\<open>repr\<close> of the elements; that builtin is the parameter \<open>rp\<close>.
\<close>

fun py_str :: "(json \<Rightarrow> string) \<Rightarrow> json \<Rightarrow> string" where
  "py_str rp JNull = ''None''"
| "py_str rp (JBool b) = (if b then ''True'' else ''False'')"
| "py_str rp (JInt i) = str_int i"
| "py_str rp (JStr s) = s"
| "py_str rp (JArr xs) = rp (JArr xs)"
| "py_str rp (JObj d) = rp (JObj d)"

text \<open>
  \<^verbatim>\<open>str.strip()\<close> removes from both ends the characters for which \<^verbatim>\<open>str.isspace\<close> holds.
  A \<open>char\<close> is a code point below 256; among those \<^verbatim>\<open>str.isspace\<close> holds for 9 to 13,
  28 to 32, 133 (U+0085) and 160 (U+00A0).
\<close>

definition py_isspace :: "char \<Rightarrow> bool" where
  "py_isspace ch =
     (let k = (of_char ch :: nat)
      in (9 \<le> k \<and> k \<le> 13) \<or> (28 \<le> k \<and> k \<le> 32) \<or> k = 133 \<or> k = 160)"

definition strip :: "string \<Rightarrow> string" where
  "strip s = rev (dropWhile py_isspace (rev (dropWhile py_isspace s)))"

section \<open>Failures\<close>

text \<open>
  Every exception the client can raise or let through. \<open>RuntimeError\<close> and \<open>RPCError\<close>
  are raised by \<^verbatim>\<open>client.py\<close> itself; the others come from the libraries it calls:
  \<open>JSONDecodeError\<close> from \<^verbatim>\<open>json.loads\<close>, \<open>AttributeError\<close> from calling \<^verbatim>\<open>.get\<close> on a
  value that is not a dict, \<open>ConnectionClosed\<close> from \<^verbatim>\<open>send\<close>/\<^verbatim>\<open>recv\<close> on a dead socket,
  \<open>ConnectError\<close> from \<^verbatim>\<open>ws_client.connect\<close>, \<open>OSError\<close> from \<^verbatim>\<open>read_text\<close> and
  \<open>ValidationError\<close> from the pydantic model.
\<close>

datatype error =
    RuntimeError string
  | RPCError json json json
  | JSONDecodeError
  | AttributeError
  | ConnectionClosed
  | ConnectError
  | OSError
  | ValidationError

section \<open>Connection configuration\<close>

record GodotConfig =
  ws_url :: string
  token :: string
  token_file :: string

text \<open>
  Constructing the pydantic model validates the field types. \<open>ws_url\<close> and
  \<open>token_file\<close> are always strings here; the token may come out of a decoded file
  and is accepted only when it is a string.
\<close>

definition GodotConfig_new :: "string \<Rightarrow> json \<Rightarrow> string \<Rightarrow> error + GodotConfig" where
  "GodotConfig_new url tok tf =
     (case tok of
        JStr t \<Rightarrow> Inr \<lparr>ws_url = url, token = t, token_file = tf\<rparr>
      | _ \<Rightarrow> Inl ValidationError)"

datatype fs_node = File string | Unreadable

definition environ_get :: "(string \<rightharpoonup> string) \<Rightarrow> string \<Rightarrow> string \<Rightarrow> string" where
  "environ_get env k dflt = (case env k of None \<Rightarrow> dflt | Some v \<Rightarrow> v)"

text \<open>
  \<^verbatim>\<open>GodotClient._load_config\<close>. The environment is \<open>env\<close>, the file system \<open>fs\<close> maps a
  path to what is there (\<open>None\<close>: the path does not exist; \<open>Unreadable\<close>: it exists
  and \<^verbatim>\<open>read_text\<close> raises), \<open>loads\<close> is \<^verbatim>\<open>json.loads\<close> with \<open>None\<close> for
  \<^verbatim>\<open>JSONDecodeError\<close>.
\<close>

definition load_config ::
  "(string \<Rightarrow> json option) \<Rightarrow> (json \<Rightarrow> string) \<Rightarrow> (string \<rightharpoonup> string) \<Rightarrow> (string \<rightharpoonup> fs_node)
     \<Rightarrow> error + GodotConfig" where
  "load_config loads rp env fs =
     (let url = environ_get env ''GODOT_WS_URL'' ''ws://127.0.0.1:49631'';
          tok = environ_get env ''GODOT_TOKEN'' '''';
          tf = environ_get env ''GODOT_TOKEN_FILE'' ''''
      in if tok = [] \<and> tf \<noteq> [] then
           (case fs tf of
              None \<Rightarrow> GodotConfig_new url (JStr tok) tf
            | Some Unreadable \<Rightarrow> Inl OSError
            | Some (File raw) \<Rightarrow>
                (let content = strip raw in
                 case loads content of
                   None \<Rightarrow> GodotConfig_new url (JStr content) tf
                 | Some (JObj data) \<Rightarrow>
                     GodotConfig_new
                       (case map_of data ''port'' of
                          None \<Rightarrow> url
                        | Some p \<Rightarrow> ''ws://127.0.0.1:'' @ py_str rp p)
                       (dict_get data ''token'' (JStr content)) tf
                 | Some _ \<Rightarrow> Inl AttributeError))
         else GodotConfig_new url (JStr tok) tf)"

section \<open>The socket and the world around the client\<close>

text \<open>
  The websockets library is the environment. \<open>trace\<close> lists the library calls made so
  far, in order; \<open>inbox\<close> is what the next calls of \<^verbatim>\<open>recv\<close> will deliver; \<open>accepting\<close>
  says whether \<^verbatim>\<open>ws_client.connect\<close> succeeds; \<open>link_ok\<close> whether the peer is still
  there. A socket handle is the position of its \<open>IoConnect\<close> in the trace. The frame of
  an \<open>IoSend\<close> is the request document that \<^verbatim>\<open>json.dumps\<close> serialises.
\<close>

datatype recv_event = Frame string | Closed

datatype io_event = IoConnect string | IoSend nat json | IoRecv nat | IoClose nat

record world =
  accepting :: bool
  link_ok :: bool
  inbox :: "recv_event list"
  trace :: "io_event list"

definition ws_connect :: "string \<Rightarrow> world \<Rightarrow> (error + nat) \<times> world" where
  "ws_connect url w =
     (if accepting w
      then (Inr (length (trace w)), w\<lparr>link_ok := True, trace := trace w @ [IoConnect url]\<rparr>)
      else (Inl ConnectError, w\<lparr>trace := trace w @ [IoConnect url]\<rparr>))"

definition ws_send :: "nat \<Rightarrow> json \<Rightarrow> world \<Rightarrow> error option \<times> world" where
  "ws_send h doc w =
     (if link_ok w then None else Some ConnectionClosed, w\<lparr>trace := trace w @ [IoSend h doc]\<rparr>)"

text \<open>\<^verbatim>\<open>recv\<close> blocks until a frame arrives: with nothing left to arrive it never returns.\<close>

definition ws_recv :: "nat \<Rightarrow> world \<Rightarrow> ((error + string) \<times> world) option" where
  "ws_recv h w =
     (if \<not> link_ok w then Some (Inl ConnectionClosed, w\<lparr>trace := trace w @ [IoRecv h]\<rparr>)
      else case inbox w of
             [] \<Rightarrow> None
           | Closed # rest \<Rightarrow>
               Some (Inl ConnectionClosed,
                     w\<lparr>link_ok := False, inbox := rest, trace := trace w @ [IoRecv h]\<rparr>)
           | Frame payload # rest \<Rightarrow>
               Some (Inr payload, w\<lparr>inbox := rest, trace := trace w @ [IoRecv h]\<rparr>))"

definition ws_close :: "nat \<Rightarrow> world \<Rightarrow> world" where
  "ws_close h w = w\<lparr>link_ok := False, trace := trace w @ [IoClose h]\<rparr>"

section \<open>The client\<close>

record GodotClient =
  config :: GodotConfig
  ws :: "nat option"
  request_id :: int
  authenticated :: bool

definition GodotClient_init :: "GodotConfig \<Rightarrow> GodotClient" where
  "GodotClient_init cfg = \<lparr>config = cfg, ws = None, request_id = 0, authenticated = False\<rparr>"

text \<open>What \<^verbatim>\<open>call\<close> does with the response whose id matched.\<close>

definition matched_response :: "(string \<times> json) list \<Rightarrow> error + json" where
  "matched_response response =
     (case map_of response ''error'' of
        Some err \<Rightarrow>
          (case err of
             JObj e \<Rightarrow> Inl (RPCError (dict_get e ''code'' (JInt (- 1)))
                                     (dict_get e ''message'' (JStr ''Unknown error''))
                                     (dict_get e ''data'' JNull))
           | _ \<Rightarrow> Inl AttributeError)
      | None \<Rightarrow> Inr (dict_get response ''result'' (JObj [])))"

text \<open>The \<^verbatim>\<open>while True\<close> loop of \<^verbatim>\<open>call\<close>; \<open>rid\<close> is \<^verbatim>\<open>str(self.request_id)\<close>.\<close>

function wait_response ::
  "(string \<Rightarrow> json option) \<Rightarrow> string \<Rightarrow> nat \<Rightarrow> world \<Rightarrow> ((error + json) \<times> world) option" where
  "wait_response loads rid h w =
     (case ws_recv h w of
        None \<Rightarrow> None
      | Some (Inl e, w') \<Rightarrow> Some (Inl e, w')
      | Some (Inr response_text, w') \<Rightarrow>
          (case loads response_text of
             None \<Rightarrow> Some (Inl JSONDecodeError, w')
           | Some (JObj response) \<Rightarrow>
               if map_of response ''id'' = Some (JStr rid)
               then Some (matched_response response, w')
               else wait_response loads rid h w'
           | Some _ \<Rightarrow> Some (Inl AttributeError, w')))"
  by pat_completeness auto
termination
  by (relation "measure (\<lambda>(loads, rid, h, w). length (inbox w))")
     (auto simp: ws_recv_def split: if_splits list.splits recv_event.splits)

declare wait_response.simps [simp del]

text \<open>The request document of \<^verbatim>\<open>call\<close>; \<^verbatim>\<open>params or {}\<close> turns \<^verbatim>\<open>None\<close> into the empty dict.\<close>

definition make_request :: "int \<Rightarrow> string \<Rightarrow> (string \<times> json) list option \<Rightarrow> json" where
  "make_request rid method params =
     JObj [(''jsonrpc'', JStr ''2.0''),
           (''id'', JStr (str_int rid)),
           (''method'', JStr method),
           (''params'', JObj (case params of None \<Rightarrow> [] | Some d \<Rightarrow> d))]"

definition call ::
  "(string \<Rightarrow> json option) \<Rightarrow> GodotClient \<Rightarrow> world \<Rightarrow> string \<Rightarrow> (string \<times> json) list option
     \<Rightarrow> ((error + json) \<times> GodotClient \<times> world) option" where
  "call loads c w method params =
     (case ws c of
        None \<Rightarrow> Some (Inl (RuntimeError ''Not connected to Godot''), c, w)
      | Some h \<Rightarrow>
          (let c1 = c\<lparr>request_id := request_id c + 1\<rparr>;
               request = make_request (request_id c1) method params
           in case ws_send h request w of
                (Some e, w1) \<Rightarrow> Some (Inl e, c1, w1)
              | (None, w1) \<Rightarrow>
                  (case wait_response loads (str_int (request_id c1)) h w1 of
                     None \<Rightarrow> None
                   | Some (r, w2) \<Rightarrow> Some (r, c1, w2))))"

text \<open>
  The first part of \<^verbatim>\<open>call\<close>, up to and including \<^verbatim>\<open>send\<close> (client.py 89 to 101). It
  always completes, whatever the receive loop does afterwards; the first component is
  the exception raised so far, if any.
\<close>

definition call_send ::
  "GodotClient \<Rightarrow> world \<Rightarrow> string \<Rightarrow> (string \<times> json) list option
     \<Rightarrow> error option \<times> GodotClient \<times> world" where
  "call_send c w method params =
     (case ws c of
        None \<Rightarrow> (Some (RuntimeError ''Not connected to Godot''), c, w)
      | Some h \<Rightarrow>
          (let c1 = c\<lparr>request_id := request_id c + 1\<rparr>;
               request = make_request (request_id c1) method params
           in case ws_send h request w of (e, w1) \<Rightarrow> (e, c1, w1)))"

text \<open>
  \<^verbatim>\<open>connect\<close> catches every exception and answers \<^verbatim>\<open>False\<close>; it returns nothing only
  when the handshake call never returns.
\<close>

definition hello_params :: "GodotClient \<Rightarrow> (string \<times> json) list" where
  "hello_params c = [(''token'', JStr (token (config c))),
                     (''client'', JStr ''godot-bridge-cli''),
                     (''version'', JStr ''1.0.0'')]"

definition connect ::
  "(string \<Rightarrow> json option) \<Rightarrow> GodotClient \<Rightarrow> world \<Rightarrow> (bool \<times> GodotClient \<times> world) option" where
  "connect loads c w =
     (case ws_connect (ws_url (config c)) w of
        (Inl e, w1) \<Rightarrow> Some (False, c, w1)
      | (Inr h, w1) \<Rightarrow>
          (let c1 = c\<lparr>ws := Some h\<rparr> in
           case call loads c1 w1 ''auth.hello'' (Some (hello_params c1)) of
             None \<Rightarrow> None
           | Some (Inl e, c2, w2) \<Rightarrow> Some (False, c2, w2)
           | Some (Inr result, c2, w2) \<Rightarrow>
               (case result of
                  JObj d \<Rightarrow>
                    if py_truthy (dict_get d ''ok'' JNull)
                    then Some (True, c2\<lparr>authenticated := True\<rparr>, w2)
                    else Some (False, c2, w2)
                | _ \<Rightarrow> Some (False, c2, w2))))"

definition close :: "GodotClient \<Rightarrow> world \<Rightarrow> GodotClient \<times> world" where
  "close c w =
     (case ws c of
        Some h \<Rightarrow> (c\<lparr>ws := None, authenticated := False\<rparr>, ws_close h w)
      | None \<Rightarrow> (c, w))"

section \<open>Sequences of operations, and what went over the wire\<close>

text \<open>
  What a caller can do with one client instance: \<^verbatim>\<open>connect\<close>, \<^verbatim>\<open>call\<close> and \<^verbatim>\<open>close\<close>, in any
  order, going on after an operation that raised or answered \<^verbatim>\<open>False\<close> (as \<^verbatim>\<open>status\<close> in
  \<^verbatim>\<open>main.py\<close> does). An operation that never returns stops the sequence.
\<close>

datatype client_op = OpConnect | OpCall string "(string \<times> json) list option" | OpClose

fun run_op ::
  "(string \<Rightarrow> json option) \<Rightarrow> client_op \<Rightarrow> GodotClient \<Rightarrow> world \<Rightarrow> (GodotClient \<times> world) option" where
  "run_op loads OpConnect c w =
     (case connect loads c w of None \<Rightarrow> None | Some (b, c', w') \<Rightarrow> Some (c', w'))"
| "run_op loads (OpCall method params) c w =
     (case call loads c w method params of None \<Rightarrow> None | Some (r, c', w') \<Rightarrow> Some (c', w'))"
| "run_op loads OpClose c w = Some (close c w)"

fun run_ops ::
  "(string \<Rightarrow> json option) \<Rightarrow> client_op list \<Rightarrow> GodotClient \<Rightarrow> world
     \<Rightarrow> (GodotClient \<times> world) option" where
  "run_ops loads [] c w = Some (c, w)"
| "run_ops loads (x # xs) c w =
     (case run_op loads x c w of
        None \<Rightarrow> None
      | Some (c', w') \<Rightarrow> run_ops loads xs c' w')"

text \<open>The \<^verbatim>\<open>id\<close> members of the requests handed to \<^verbatim>\<open>send\<close>, oldest first.\<close>

fun sent_ids :: "io_event list \<Rightarrow> json list" where
  "sent_ids [] = []"
| "sent_ids (IoSend h (JObj d) # t) = dict_get d ''id'' JNull # sent_ids t"
| "sent_ids (e # t) = sent_ids t"

text \<open>The ids that take the counter from \<open>a\<close> to \<open>b\<close>: \<^verbatim>\<open>str(a + 1)\<close> up to \<^verbatim>\<open>str(b)\<close>.\<close>

definition new_ids :: "int \<Rightarrow> int \<Rightarrow> json list" where
  "new_ids a b = map (\<lambda>i. JStr (str_int i)) [a + 1..b]"

text \<open>
  A frame that the loop of \<^verbatim>\<open>call\<close> passes over while it waits for \<open>rid\<close>: a JSON
  object whose \<^verbatim>\<open>id\<close> member is missing or is not the string \<open>rid\<close>.
\<close>

definition stale_response :: "(string \<Rightarrow> json option) \<Rightarrow> string \<Rightarrow> recv_event \<Rightarrow> bool" where
  "stale_response loads rid ev =
     (case ev of
        Closed \<Rightarrow> False
      | Frame payload \<Rightarrow>
          (case loads payload of
             Some (JObj response) \<Rightarrow> map_of response ''id'' \<noteq> Some (JStr rid)
           | _ \<Rightarrow> False))"

text \<open>
  \<^verbatim>\<open>json.loads\<close> on the handful of texts that the examples below use, and \<open>None\<close>
  (\<^verbatim>\<open>JSONDecodeError\<close>) on the plain-text token \<^verbatim>\<open>s3cret\<close>; \<open>no_repr\<close> stands for Python's
  \<^verbatim>\<open>repr\<close> where no list or dict is ever printed.
\<close>

definition loads_table :: "string \<Rightarrow> json option" where
  "loads_table = map_of
     [(''{\"id\": \"1\", \"result\": {\"ok\": true, \"editor_version\": \"4.3\"}}'',
         JObj [(''id'', JStr ''1''),
               (''result'', JObj [(''ok'', JBool True), (''editor_version'', JStr ''4.3'')])]),
      (''{\"id\": \"1\", \"result\": {\"ok\": \"no\"}}'',
         JObj [(''id'', JStr ''1''), (''result'', JObj [(''ok'', JStr ''no'')])]),
      (''{\"id\": \"2\", \"error\": {\"code\": -32601, \"message\": \"Method not found\"}}'',
         JObj [(''id'', JStr ''2''),
               (''error'', JObj [(''code'', JInt (- 32601)), (''message'', JStr ''Method not found'')])]),
      (''{\"id\": \"2\"}'', JObj [(''id'', JStr ''2'')]),
      (''{\"id\": \"2\", \"result\": {\"ok\": true}}'',
         JObj [(''id'', JStr ''2''), (''result'', JObj [(''ok'', JBool True)])]),
      (''{\"id\": \"2\", \"result\": {\"ok\": true}, \"error\": null}'',
         JObj [(''id'', JStr ''2''), (''result'', JObj [(''ok'', JBool True)]),
               (''error'', JNull)]),
      (''{\"id\": \"7\", \"result\": 0}'', JObj [(''id'', JStr ''7''), (''result'', JInt 0)]),
      (''{\"method\": \"log\"}'', JObj [(''method'', JStr ''log'')]),
      (''{\"token\": \"abc\", \"port\": 5000}'',
         JObj [(''token'', JStr ''abc''), (''port'', JInt 5000)]),
      (''{\"port\": 5000}'', JObj [(''port'', JInt 5000)]),
      (''[1, 2]'', JArr [JInt 1, JInt 2]),
      (''42'', JInt 42)]"

definition no_repr :: "json \<Rightarrow> string" where
  "no_repr v = []"

section \<open>Concrete data for the examples\<close>

text \<open>
  A configuration, a client that has an open socket and has made \<open>n\<close> calls, a world
  in which nothing is connected yet and one in which the socket is open, an environment
  and a one-file file system.
\<close>

definition sample_config :: GodotConfig where
  "sample_config = \<lparr>ws_url = ''ws://127.0.0.1:49631'', token = ''abc'', token_file = ''''\<rparr>"

definition idle_world :: "recv_event list \<Rightarrow> world" where
  "idle_world frames = \<lparr>accepting = True, link_ok = False, inbox = frames, trace = []\<rparr>"

definition open_world :: "recv_event list \<Rightarrow> world" where
  "open_world frames =
     \<lparr>accepting = True, link_ok = True, inbox = frames,
      trace = [IoConnect ''ws://127.0.0.1:49631'']\<rparr>"

definition open_client :: "int \<Rightarrow> GodotClient" where
  "open_client n = (GodotClient_init sample_config)\<lparr>ws := Some 0, request_id := n\<rparr>"

definition env_of :: "string \<Rightarrow> string \<Rightarrow> string \<rightharpoonup> string" where
  "env_of tok tf = [''GODOT_WS_URL'' \<mapsto> ''wss://godot.example:9000'',
                    ''GODOT_TOKEN'' \<mapsto> tok,
                    ''GODOT_TOKEN_FILE'' \<mapsto> tf]"

definition fs_of :: "string \<Rightarrow> string \<rightharpoonup> fs_node" where
  "fs_of raw = [''/tmp/godot_token'' \<mapsto> File raw]"

abbreviation msg_auth_ok :: string where
  "msg_auth_ok \<equiv> ''{\"id\": \"1\", \"result\": {\"ok\": true, \"editor_version\": \"4.3\"}}''"
abbreviation msg_auth_no :: string where
  "msg_auth_no \<equiv> ''{\"id\": \"1\", \"result\": {\"ok\": \"no\"}}''"
abbreviation msg_error2 :: string where
  "msg_error2 \<equiv> ''{\"id\": \"2\", \"error\": {\"code\": -32601, \"message\": \"Method not found\"}}''"
abbreviation msg_bare2 :: string where
  "msg_bare2 \<equiv> ''{\"id\": \"2\"}''"
abbreviation msg_auth_ok2 :: string where
  "msg_auth_ok2 \<equiv> ''{\"id\": \"2\", \"result\": {\"ok\": true}}''"
abbreviation msg_null_error2 :: string where
  "msg_null_error2 \<equiv> ''{\"id\": \"2\", \"result\": {\"ok\": true}, \"error\": null}''"
abbreviation msg_log :: string where
  "msg_log \<equiv> ''{\"method\": \"log\"}''"
abbreviation file_full :: string where
  "file_full \<equiv> ''{\"token\": \"abc\", \"port\": 5000}''"
abbreviation file_port :: string where
  "file_port \<equiv> ''{\"port\": 5000}''"

section \<open>Decimal strings\<close>

lemma digit_cases:
  "d < (10::nat) \<Longrightarrow>
     d = 0 \<or> d = 1 \<or> d = 2 \<or> d = 3 \<or> d = 4 \<or> d = 5 \<or> d = 6 \<or> d = 7 \<or> d = 8 \<or> d = 9"
  by arith

lemma digit_val_digit_char: "d < 10 \<Longrightarrow> digit_val (digit_char d) = d"
  by (drule digit_cases) (auto simp: digit_val_def digit_char_def)

lemma digit_char_not_minus: "d < 10 \<Longrightarrow> digit_char d \<noteq> CHR ''-''"
  by (drule digit_cases) (auto simp: digit_char_def)

lemma str_nat_small: "n < 10 \<Longrightarrow> str_nat n = [digit_char n]"
  by (simp add: str_nat.simps [of n])

lemma str_nat_big: "\<not> n < 10 \<Longrightarrow> str_nat n = str_nat (n div 10) @ [digit_char (n mod 10)]"
  by (simp add: str_nat.simps [of n])

lemmas str_int_eval = str_int_def str_nat_small str_nat_big digit_char_def

lemma nat_of_digits_snoc:
  "nat_of_digits (s @ [ch]) = 10 * nat_of_digits s + digit_val ch"
  by (simp add: nat_of_digits_def)

lemma nat_of_digits_str_nat: "nat_of_digits (str_nat n) = n"
proof (induction n rule: str_nat.induct)
  case (1 n)
  show ?case
  proof (cases "n < 10")
    case True
    then show ?thesis
      by (simp add: str_nat_small nat_of_digits_def digit_val_digit_char)
  next
    case False
    with 1 show ?thesis
      by (simp add: str_nat_big nat_of_digits_snoc digit_val_digit_char)
  qed
qed

lemma str_nat_head: "\<exists>d r. d < 10 \<and> str_nat n = digit_char d # r"
proof (induction n rule: str_nat.induct)
  case (1 n)
  show ?case
  proof (cases "n < 10")
    case True
    then show ?thesis by (auto simp: str_nat_small)
  next
    case False
    with 1 obtain d r where "d < 10" "str_nat (n div 10) = digit_char d # r" by auto
    with False show ?thesis by (auto simp: str_nat_big)
  qed
qed

lemma int_of_str_str_int: "int_of_str (str_int i) = i"
proof (cases "i < 0")
  case True
  then show ?thesis
    by (simp add: int_of_str_def str_int_def nat_of_digits_str_nat)
next
  case False
  obtain d r where d: "d < 10" and s: "str_nat (nat i) = digit_char d # r"
    using str_nat_head by blast
  have "nat_of_digits (digit_char d # r) = nat i"
    using nat_of_digits_str_nat [of "nat i"] s by simp
  with False d s show ?thesis
    by (simp add: int_of_str_def str_int_def digit_char_not_minus)
qed

lemma str_int_inj: "str_int i = str_int j \<Longrightarrow> i = j"
  by (metis int_of_str_str_int)

section \<open>The receive loop\<close>

lemma sent_ids_append: "sent_ids (a @ b) = sent_ids a @ sent_ids b"
  by (induction a rule: sent_ids.induct) auto

lemma wait_response_empty:
  "link_ok w \<Longrightarrow> inbox w = [] \<Longrightarrow> wait_response loads rid h w = None"
  by (simp add: wait_response.simps [of loads rid h w] ws_recv_def)

lemma wait_response_match:
  assumes "link_ok w" "inbox w = Frame payload # rest" "loads payload = Some (JObj response)"
    "map_of response ''id'' = Some (JStr rid)"
  shows "wait_response loads rid h w =
     Some (matched_response response, w\<lparr>inbox := rest, trace := trace w @ [IoRecv h]\<rparr>)"
  using assms by (simp add: wait_response.simps [of loads rid h w] ws_recv_def)

lemma wait_response_stale:
  assumes "link_ok w" "inbox w = ev # rest" "stale_response loads rid ev"
  shows "wait_response loads rid h w =
     wait_response loads rid h (w\<lparr>inbox := rest, trace := trace w @ [IoRecv h]\<rparr>)"
  using assms
  by (auto simp: wait_response.simps [of loads rid h w] ws_recv_def stale_response_def
           split: recv_event.splits option.splits json.splits)

lemma wait_response_skip:
  "link_ok w \<Longrightarrow> \<forall>ev\<in>set pre. stale_response loads rid ev \<Longrightarrow> inbox w = pre @ rest \<Longrightarrow>
   wait_response loads rid h w =
     wait_response loads rid h
       (w\<lparr>inbox := rest, trace := trace w @ replicate (length pre) (IoRecv h)\<rparr>)"
proof (induction pre arbitrary: w)
  case Nil
  then have "w\<lparr>inbox := rest, trace := trace w @ replicate (length []) (IoRecv h)\<rparr> = w"
    by simp
  then show ?case by simp
next
  case (Cons ev pre)
  let ?w1 = "w\<lparr>inbox := pre @ rest, trace := trace w @ [IoRecv h]\<rparr>"
  have "wait_response loads rid h w = wait_response loads rid h ?w1"
    using Cons.prems by (intro wait_response_stale) auto
  also have "\<dots> = wait_response loads rid h
       (?w1\<lparr>inbox := rest, trace := trace ?w1 @ replicate (length pre) (IoRecv h)\<rparr>)"
    using Cons.prems by (intro Cons.IH) auto
  finally show ?case by simp
qed

lemma wait_response_sent_ids:
  "wait_response loads rid h w = Some (r, w') \<Longrightarrow> sent_ids (trace w') = sent_ids (trace w)"
proof (induction "inbox w" arbitrary: w r w')
  case Nil
  then show ?case
    by (auto simp: wait_response.simps [of loads rid h w] ws_recv_def sent_ids_append
             split: if_splits)
next
  case (Cons ev rest)
  show ?case
  proof (cases "link_ok w")
    case False
    with Cons.prems show ?thesis
      by (auto simp: wait_response.simps [of loads rid h w] ws_recv_def sent_ids_append)
  next
    case True
    let ?w1 = "w\<lparr>inbox := rest, trace := trace w @ [IoRecv h]\<rparr>"
    have ih: "\<And>r w'. wait_response loads rid h ?w1 = Some (r, w') \<Longrightarrow>
        sent_ids (trace w') = sent_ids (trace w)"
      using Cons.hyps(1) [of ?w1] by (simp add: sent_ids_append)
    from Cons.prems Cons.hyps(2) [symmetric] True show ?thesis
      by (auto simp: wait_response.simps [of loads rid h w] ws_recv_def sent_ids_append
               split: recv_event.splits option.splits json.splits if_splits dest: ih)
  qed
qed

lemma call_sent:
  assumes "ws c = Some h" "call loads c w m p = Some (r, c', w')"
  shows "ws c' = Some h \<and> request_id c' = request_id c + 1 \<and>
         sent_ids (trace w') = sent_ids (trace w) @ [JStr (str_int (request_id c + 1))]"
  using assms
  by (auto simp: call_def Let_def ws_send_def make_request_def dict_get_def sent_ids_append
           split: option.splits prod.splits dest: wait_response_sent_ids)

lemma call_matched:
  assumes "ws c = Some h" "link_ok w" "inbox w = pre @ Frame payload # rest"
    "\<forall>ev\<in>set pre. stale_response loads (str_int (request_id c + 1)) ev"
    "loads payload = Some (JObj response)"
    "map_of response ''id'' = Some (JStr (str_int (request_id c + 1)))"
  shows "call loads c w m p =
     Some (matched_response response, c\<lparr>request_id := request_id c + 1\<rparr>,
           w\<lparr>inbox := rest,
             trace := trace w @ IoSend h (make_request (request_id c + 1) m p)
                        # replicate (Suc (length pre)) (IoRecv h)\<rparr>)"
proof -
  let ?rid = "str_int (request_id c + 1)"
  let ?w1 = "w\<lparr>trace := trace w @ [IoSend h (make_request (request_id c + 1) m p)]\<rparr>"
  let ?w2 = "?w1\<lparr>inbox := Frame payload # rest,
                  trace := trace ?w1 @ replicate (length pre) (IoRecv h)\<rparr>"
  have "wait_response loads ?rid h ?w1 = wait_response loads ?rid h ?w2"
    using assms by (intro wait_response_skip) auto
  also have "\<dots> = Some (matched_response response,
                         ?w2\<lparr>inbox := rest, trace := trace ?w2 @ [IoRecv h]\<rparr>)"
    using assms by (intro wait_response_match) auto
  finally have "wait_response loads ?rid h ?w1 =
      Some (matched_response response,
            w\<lparr>inbox := rest,
              trace := trace w @ IoSend h (make_request (request_id c + 1) m p)
                         # replicate (Suc (length pre)) (IoRecv h)\<rparr>)"
    by (simp add: replicate_append_same)
  with assms(1,2) show ?thesis
    by (simp add: call_def Let_def ws_send_def)
qed

lemma connect_matched:
  assumes "accepting w"
    and "inbox w = pre @ Frame payload # rest"
    and "\<forall>ev\<in>set pre. stale_response loads (str_int (request_id c + 1)) ev"
    and "loads payload = Some (JObj response)"
    and "map_of response ''id'' = Some (JStr (str_int (request_id c + 1)))"
    and "map_of response ''error'' = None"
  shows "connect loads c w =
     (let h = length (trace w);
          c2 = c\<lparr>ws := Some h, request_id := request_id c + 1\<rparr>;
          w2 = w\<lparr>link_ok := True, inbox := rest,
                 trace := trace w @ IoConnect (ws_url (config c))
                            # IoSend h (make_request (request_id c + 1) ''auth.hello''
                                         (Some (hello_params c)))
                            # replicate (Suc (length pre)) (IoRecv h)\<rparr>
      in case dict_get response ''result'' (JObj []) of
           JObj d \<Rightarrow> if py_truthy (dict_get d ''ok'' JNull)
                     then Some (True, c2\<lparr>authenticated := True\<rparr>, w2)
                     else Some (False, c2, w2)
         | _ \<Rightarrow> Some (False, c2, w2))"
proof -
  let ?h = "length (trace w)"
  let ?c1 = "c\<lparr>ws := Some ?h\<rparr>"
  let ?w1 = "w\<lparr>link_ok := True, trace := trace w @ [IoConnect (ws_url (config c))]\<rparr>"
  have hp: "hello_params ?c1 = hello_params c"
    by (simp add: hello_params_def)
  have "call loads ?c1 ?w1 ''auth.hello'' (Some (hello_params ?c1)) =
      Some (matched_response response, ?c1\<lparr>request_id := request_id ?c1 + 1\<rparr>,
            ?w1\<lparr>inbox := rest,
                trace := trace ?w1 @ IoSend ?h (make_request (request_id ?c1 + 1) ''auth.hello''
                                                 (Some (hello_params ?c1)))
                           # replicate (Suc (length pre)) (IoRecv ?h)\<rparr>)"
    using assms by (intro call_matched) auto
  moreover have "matched_response response = Inr (dict_get response ''result'' (JObj []))"
    using assms(6) by (simp add: matched_response_def)
  ultimately show ?thesis
    using assms(1)
    by (cases "dict_get response ''result'' (JObj [])")
       (simp_all add: connect_def ws_connect_def Let_def hp)
qed

section \<open>Sending, blocking and the request counter\<close>

lemma wait_response_None_iff:
  "wait_response loads rid h w = None \<longleftrightarrow>
     link_ok w \<and> (\<forall>ev\<in>set (inbox w). stale_response loads rid ev)"
proof (induction "inbox w" arbitrary: w)
  case Nil
  then show ?case
    by (auto simp: wait_response.simps [of loads rid h w] ws_recv_def)
next
  case (Cons ev rest)
  show ?case
  proof (cases "link_ok w")
    case False
    then show ?thesis
      by (simp add: wait_response.simps [of loads rid h w] ws_recv_def)
  next
    case True
    let ?w1 = "w\<lparr>inbox := rest, trace := trace w @ [IoRecv h]\<rparr>"
    have "rest = inbox ?w1" by simp
    from Cons.hyps(1) [OF this] True
    have ih: "wait_response loads rid h ?w1 = None \<longleftrightarrow>
        (\<forall>ev\<in>set rest. stale_response loads rid ev)"
      by simp
    note unfold = wait_response.simps [of loads rid h w] ws_recv_def stale_response_def
    note inb = Cons.hyps(2) [symmetric]
    show ?thesis
    proof (cases ev)
      case Closed
      with inb True show ?thesis by (simp add: unfold)
    next
      case (Frame payload)
      show ?thesis
      proof (cases "loads payload")
        case None
        with Frame inb True show ?thesis by (simp add: unfold)
      next
        case (Some v)
        show ?thesis
        proof (cases v)
          case (JObj response)
          with Some Frame inb True ih show ?thesis by (simp add: unfold)
        qed (use Some Frame inb True in \<open>simp_all add: unfold\<close>)
      qed
    qed
  qed
qed

lemma call_send_open:
  "ws c = Some h \<Longrightarrow>
   call_send c w m p =
     (if link_ok w then None else Some ConnectionClosed,
      c\<lparr>request_id := request_id c + 1\<rparr>,
      w\<lparr>trace := trace w @ [IoSend h (make_request (request_id c + 1) m p)]\<rparr>)"
  by (simp add: call_send_def Let_def ws_send_def)

lemma call_after_send:
  "ws c = Some h \<Longrightarrow>
   call loads c w m p =
     (case call_send c w m p of
        (Some e, c1, w1) \<Rightarrow> Some (Inl e, c1, w1)
      | (None, c1, w1) \<Rightarrow>
          (case wait_response loads (str_int (request_id c1)) h w1 of
             None \<Rightarrow> None
           | Some (r, w2) \<Rightarrow> Some (r, c1, w2)))"
  by (simp add: call_def call_send_def Let_def ws_send_def)

lemma call_None_iff:
  "ws c = Some h \<Longrightarrow>
   call loads c w m p = None \<longleftrightarrow>
     link_ok w \<and> (\<forall>ev\<in>set (inbox w). stale_response loads (str_int (request_id c + 1)) ev)"
proof -
  assume h: "ws c = Some h"
  let ?w1 = "w\<lparr>trace := trace w @ [IoSend h (make_request (request_id c + 1) m p)]\<rparr>"
  let ?rid = "str_int (request_id c + 1)"
  show ?thesis
  proof (cases "link_ok w")
    case False
    with h show ?thesis by (simp add: call_def Let_def ws_send_def)
  next
    case True
    with h have "call loads c w m p = None \<longleftrightarrow> wait_response loads ?rid h ?w1 = None"
      by (simp add: call_def Let_def ws_send_def split: option.splits)
    also have "\<dots> \<longleftrightarrow> link_ok ?w1 \<and> (\<forall>ev\<in>set (inbox ?w1). stale_response loads ?rid ev)"
      by (rule wait_response_None_iff)
    finally show ?thesis by simp
  qed
qed

lemma call_authenticated:
  "call loads c w m p = Some (r, c', w') \<Longrightarrow> authenticated c' = authenticated c"
  by (auto simp: call_def Let_def ws_send_def split: option.splits prod.splits if_splits)

lemma upto_join: "a \<le> b \<Longrightarrow> b \<le> c \<Longrightarrow> [a + 1..b] @ [b + 1..c] = [a + 1..(c::int)]"
proof (cases "a = b")
  case True
  then show ?thesis by simp
next
  case False
  assume "a \<le> b" "b \<le> c"
  with False have "a + 1 \<le> b" by simp
  from upto_split2 [OF this \<open>b \<le> c\<close>] show ?thesis by simp
qed


lemma new_ids_join: "a \<le> b \<Longrightarrow> b \<le> c \<Longrightarrow> new_ids a b @ new_ids b c = new_ids a c"
  by (simp add: new_ids_def upto_join flip: map_append)

lemma call_ids:
  assumes "call loads c w m p = Some (r, c', w')"
  shows "request_id c \<le> request_id c' \<and>
         sent_ids (trace w') = sent_ids (trace w) @ new_ids (request_id c) (request_id c')"
proof (cases "ws c")
  case None
  with assms show ?thesis by (simp add: call_def new_ids_def)
next
  case (Some h)
  from call_sent [OF Some assms] show ?thesis by (simp add: new_ids_def)
qed

lemma connect_ids:
  assumes "connect loads c w = Some (b, c', w')"
  shows "request_id c \<le> request_id c' \<and>
         sent_ids (trace w') = sent_ids (trace w) @ new_ids (request_id c) (request_id c')"
proof (cases "accepting w")
  case False
  with assms show ?thesis
    by (auto simp: connect_def ws_connect_def new_ids_def sent_ids_append)
next
  case True
  let ?c1 = "c\<lparr>ws := Some (length (trace w))\<rparr>"
  let ?w1 = "w\<lparr>link_ok := True, trace := trace w @ [IoConnect (ws_url (config c))]\<rparr>"
  from assms True obtain r c2 w2 where
    cl: "call loads ?c1 ?w1 ''auth.hello'' (Some (hello_params ?c1)) = Some (r, c2, w2)"
    and c': "request_id c' = request_id c2" and w': "w' = w2"
    by (auto simp: connect_def ws_connect_def Let_def
             split: option.splits sum.splits json.splits if_splits)
  from call_ids [OF cl] c' w' show ?thesis
    by (simp add: sent_ids_append)
qed

lemma run_op_ids:
  assumes "run_op loads x c w = Some (c', w')"
  shows "request_id c \<le> request_id c' \<and>
         sent_ids (trace w') = sent_ids (trace w) @ new_ids (request_id c) (request_id c')"
proof (cases x)
  case OpConnect
  with assms show ?thesis
    by (auto split: option.splits dest: connect_ids)
next
  case (OpCall m p)
  with assms show ?thesis
    by (auto split: option.splits dest: call_ids)
next
  case OpClose
  with assms show ?thesis
    by (auto simp: close_def ws_close_def new_ids_def sent_ids_append split: option.splits)
qed

lemma run_ops_ids:
  "run_ops loads xs c w = Some (c', w') \<Longrightarrow>
   request_id c \<le> request_id c' \<and>
   sent_ids (trace w') = sent_ids (trace w) @ new_ids (request_id c) (request_id c')"
proof (induction xs arbitrary: c w)
  case Nil
  then show ?case by (simp add: new_ids_def)
next
  case (Cons x xs)
  from Cons.prems obtain c1 w1 where
    1: "run_op loads x c w = Some (c1, w1)" and 2: "run_ops loads xs c1 w1 = Some (c', w')"
    by (auto split: option.splits)
  from run_op_ids [OF 1] Cons.IH [OF 2] show ?case
    by (simp add: new_ids_join)
qed

lemma ids_distinct: "distinct (map str_int [a..b])"
  by (auto simp: distinct_map intro!: inj_onI dest: str_int_inj)

lemma ids_increasing: "sorted_wrt (<) (map (\<lambda>i. int_of_str (str_int i)) [a..b])"
  by (simp add: int_of_str_str_int)

section \<open>Evaluating the examples\<close>

lemmas sample_simps = open_client_def open_world_def idle_world_def GodotClient_init_def
  sample_config_def loads_table_def str_int_eval make_request_def dict_get_def
  stale_response_def

lemmas config_simps = load_config_def Let_def GodotConfig_new_def environ_get_def env_of_def
  fs_of_def strip_def py_isspace_def loads_table_def dict_get_def str_int_eval

section \<open>The properties\<close>

subsection \<open>C1: request ids\<close>

text \<open>
  Claim C1 as stated fails where it says that the ids of a connection start at
  \<^verbatim>\<open>"1"\<close>: the counter belongs to the client instance and neither \<^verbatim>\<open>close\<close> nor \<^verbatim>\<open>connect\<close>
  resets it. After connecting, closing and connecting again, the first request on the
  second socket has the id \<^verbatim>\<open>"2"\<close>.
\<close>

theorem reconnect_first_id_counterexample:
  "map_option (\<lambda>(c', w'). (trace w', sent_ids (trace w')))
     (run_ops loads_table [OpConnect, OpClose, OpConnect] (GodotClient_init sample_config)
        (idle_world [Frame msg_auth_ok, Frame msg_auth_ok2])) =
   Some ([IoConnect ''ws://127.0.0.1:49631'',
          IoSend 0 (make_request 1 ''auth.hello''
                      (Some (hello_params (GodotClient_init sample_config)))),
          IoRecv 0,
          IoClose 0,
          IoConnect ''ws://127.0.0.1:49631'',
          IoSend 4 (make_request 2 ''auth.hello''
                      (Some (hello_params (GodotClient_init sample_config)))),
          IoRecv 4],
         [JStr ''1'', JStr ''2''])"
proof -
  let ?c0 = "GodotClient_init sample_config"
  let ?w0 = "idle_world [Frame msg_auth_ok, Frame msg_auth_ok2]"
  let ?s1 = "IoSend 0 (make_request 1 ''auth.hello'' (Some (hello_params ?c0)))"
  let ?s2 = "IoSend 4 (make_request 2 ''auth.hello'' (Some (hello_params ?c0)))"
  let ?url = "IoConnect ''ws://127.0.0.1:49631''"
  let ?c1 = "\<lparr>config = sample_config, ws = Some 0, request_id = 1, authenticated = True\<rparr>"
  let ?w1 = "\<lparr>accepting = True, link_ok = True, inbox = [Frame msg_auth_ok2],
             trace = [?url, ?s1, IoRecv 0]\<rparr>"
  let ?c2 = "\<lparr>config = sample_config, ws = None, request_id = 1, authenticated = False\<rparr>"
  let ?w2 = "\<lparr>accepting = True, link_ok = False, inbox = [Frame msg_auth_ok2],
             trace = [?url, ?s1, IoRecv 0, IoClose 0]\<rparr>"
  let ?c3 = "\<lparr>config = sample_config, ws = Some 4, request_id = 2, authenticated = True\<rparr>"
  let ?w3 = "\<lparr>accepting = True, link_ok = True, inbox = [],
             trace = [?url, ?s1, IoRecv 0, IoClose 0, ?url, ?s2, IoRecv 4]\<rparr>"
  have 1: "connect loads_table ?c0 ?w0 = Some (True, ?c1, ?w1)"
    using connect_matched
      [of ?w0 "[]" msg_auth_ok "[Frame msg_auth_ok2]" loads_table ?c0
          "[(''id'', JStr ''1''),
            (''result'', JObj [(''ok'', JBool True), (''editor_version'', JStr ''4.3'')])]"]
    by (simp add: sample_simps hello_params_def)
  have 2: "close ?c1 ?w1 = (?c2, ?w2)"
    by (simp add: close_def ws_close_def)
  have 3: "connect loads_table ?c2 ?w2 = Some (True, ?c3, ?w3)"
    using connect_matched
      [of ?w2 "[]" msg_auth_ok2 "[]" loads_table ?c2
          "[(''id'', JStr ''2''), (''result'', JObj [(''ok'', JBool True)])]"]
    by (simp add: sample_simps hello_params_def)
  have run: "run_ops loads_table [OpConnect, OpClose, OpConnect] ?c0 ?w0 = Some (?c3, ?w3)"
    by (simp only: run_ops.simps run_op.simps 1 2 3 option.case prod.case)
  show ?thesis
    unfolding run by (simp add: make_request_def dict_get_def str_int_eval)
qed

text \<open>
  Claim C1, amended. Over any sequence of \<^verbatim>\<open>connect\<close>, \<^verbatim>\<open>call\<close> and \<^verbatim>\<open>close\<close> on one client
  instance, the ids of the requests handed to \<^verbatim>\<open>send\<close> are, in order, the decimal strings
  of the counter's initial value plus 1, plus 2, and so on up to its final value: the
  request number \<open>k\<close> carries the initial value plus \<open>k\<close>. These strings are pairwise
  different and increase when read back as numbers, over the whole life of the
  instance; a newly constructed client sends \<^verbatim>\<open>"1"\<close> first. The next call on an open socket
  hands the request with the following id to \<^verbatim>\<open>send\<close> whether or not it returns
  afterwards, and it fails to return exactly when the link is up and every frame still
  to come is one that the loop passes over.
\<close>

theorem request_ids_sequence:
  assumes "run_ops loads xs c w = Some (c', w')"
  shows "request_id c \<le> request_id c'
       \<and> sent_ids (trace w') =
           sent_ids (trace w) @ map (\<lambda>i. JStr (str_int i)) [request_id c + 1..request_id c']
       \<and> (\<forall>k. request_id c + int k < request_id c' \<longrightarrow>
             map (\<lambda>i. JStr (str_int i)) [request_id c + 1..request_id c'] ! k =
               JStr (str_int (request_id c + (int k + 1))))
       \<and> distinct (map str_int [request_id c + 1..request_id c'])
       \<and> sorted_wrt (<) (map (\<lambda>i. int_of_str (str_int i)) [request_id c + 1..request_id c'])
       \<and> (\<forall>h m p. ws c' = Some h \<longrightarrow>
             call_send c' w' m p =
               (if link_ok w' then None else Some ConnectionClosed,
                c'\<lparr>request_id := request_id c' + 1\<rparr>,
                w'\<lparr>trace := trace w' @ [IoSend h (make_request (request_id c' + 1) m p)]\<rparr>)
           \<and> call loads c' w' m p =
               (case call_send c' w' m p of
                  (Some e, c1, w1) \<Rightarrow> Some (Inl e, c1, w1)
                | (None, c1, w1) \<Rightarrow>
                    (case wait_response loads (str_int (request_id c1)) h w1 of
                       None \<Rightarrow> None
                     | Some (r, w2) \<Rightarrow> Some (r, c1, w2)))
           \<and> (call loads c' w' m p = None \<longleftrightarrow>
                link_ok w' \<and>
                (\<forall>ev\<in>set (inbox w'). stale_response loads (str_int (request_id c' + 1)) ev)))
       \<and> str_int (request_id (GodotClient_init cfg) + 1) = ''1''"
proof -
  have first: "str_int (request_id (GodotClient_init cfg) + 1) = ''1''"
    by (simp add: GodotClient_init_def str_int_eval)
  have nth: "\<forall>k. request_id c + int k < request_id c' \<longrightarrow>
             map (\<lambda>i. JStr (str_int i)) [request_id c + 1..request_id c'] ! k =
               JStr (str_int (request_id c + (int k + 1)))"
  proof (intro allI impI)
    fix k
    assume "request_id c + int k < request_id c'"
    then have le: "request_id c + 1 + int k \<le> request_id c'" by simp
    then have len: "k < length [request_id c + 1..request_id c']" by simp
    have "[request_id c + 1..request_id c'] ! k = request_id c + 1 + int k"
      by (rule nth_upto [OF le])
    with len show "map (\<lambda>i. JStr (str_int i)) [request_id c + 1..request_id c'] ! k =
               JStr (str_int (request_id c + (int k + 1)))"
      by (simp add: ac_simps)
  qed
  have "next": "\<forall>h m p. ws c' = Some h \<longrightarrow>
             call_send c' w' m p =
               (if link_ok w' then None else Some ConnectionClosed,
                c'\<lparr>request_id := request_id c' + 1\<rparr>,
                w'\<lparr>trace := trace w' @ [IoSend h (make_request (request_id c' + 1) m p)]\<rparr>)
           \<and> call loads c' w' m p =
               (case call_send c' w' m p of
                  (Some e, c1, w1) \<Rightarrow> Some (Inl e, c1, w1)
                | (None, c1, w1) \<Rightarrow>
                    (case wait_response loads (str_int (request_id c1)) h w1 of
                       None \<Rightarrow> None
                     | Some (r, w2) \<Rightarrow> Some (r, c1, w2)))
           \<and> (call loads c' w' m p = None \<longleftrightarrow>
                link_ok w' \<and>
                (\<forall>ev\<in>set (inbox w'). stale_response loads (str_int (request_id c' + 1)) ev))"
    using call_send_open call_after_send call_None_iff by blast
  from run_ops_ids [OF assms] first nth "next" ids_distinct ids_increasing show ?thesis
    unfolding new_ids_def by blast
qed

text \<open>
  C1 at work: two calls and a close on a client whose counter is 0, with a notification
  arriving between the two responses.
\<close>

theorem request_ids_sequence_witness:
  "map_option (\<lambda>(c', w'). (request_id c', sent_ids (trace w')))
     (run_ops loads_table [OpCall ''auth.hello'' None, OpCall ''project.get_info'' None, OpClose]
        (open_client 0) (open_world [Frame msg_auth_ok, Frame msg_log, Frame msg_error2])) =
   Some (2, [JStr ''1'', JStr ''2''])"
proof -
  let ?w0 = "open_world [Frame msg_auth_ok, Frame msg_log, Frame msg_error2]"
  let ?w1 = "?w0\<lparr>inbox := [Frame msg_log, Frame msg_error2],
                 trace := trace ?w0 @ IoSend 0 (make_request (request_id (open_client 0) + 1)
                                                  ''auth.hello'' None)
                            # replicate (Suc (length ([] :: recv_event list))) (IoRecv 0)\<rparr>"
  let ?c1 = "(open_client 0)\<lparr>request_id := request_id (open_client 0) + 1\<rparr>"
  let ?w2 = "?w1\<lparr>inbox := [],
                 trace := trace ?w1 @ IoSend 0 (make_request (request_id ?c1 + 1)
                                                  ''project.get_info'' None)
                            # replicate (Suc (length [Frame msg_log])) (IoRecv 0)\<rparr>"
  let ?c2 = "?c1\<lparr>request_id := request_id ?c1 + 1\<rparr>"
  have 1: "call loads_table (open_client 0) ?w0 ''auth.hello'' None =
      Some (matched_response [(''id'', JStr ''1''),
              (''result'', JObj [(''ok'', JBool True), (''editor_version'', JStr ''4.3'')])],
            ?c1, ?w1)"
    by (rule call_matched [of _ 0 _ "[]" msg_auth_ok])
       (simp_all add: sample_simps)
  have 2: "call loads_table ?c1 ?w1 ''project.get_info'' None =
      Some (matched_response [(''id'', JStr ''2''),
              (''error'', JObj [(''code'', JInt (- 32601)),
                                (''message'', JStr ''Method not found'')])],
            ?c2, ?w2)"
    by (rule call_matched [of _ 0 _ "[Frame msg_log]" msg_error2])
       (simp_all add: sample_simps)
  let ?c3 = "?c2\<lparr>ws := None, authenticated := False\<rparr>"
  let ?w3 = "ws_close 0 ?w2"
  have 3: "close ?c2 ?w2 = (?c3, ?w3)"
    by (simp add: close_def open_client_def)
  have run: "run_ops loads_table
      [OpCall ''auth.hello'' None, OpCall ''project.get_info'' None, OpClose]
      (open_client 0) ?w0 = Some (?c3, ?w3)"
    by (simp only: run_ops.simps run_op.simps 1 2 3 option.case prod.case)
  note ids = request_ids_sequence [OF run, of sample_config, THEN conjunct2, THEN conjunct1]
  have a: "map_option (\<lambda>(c', w'). (request_id c', sent_ids (trace w')))
     (run_ops loads_table [OpCall ''auth.hello'' None, OpCall ''project.get_info'' None, OpClose]
        (open_client 0) ?w0) =
     Some (request_id ?c3, sent_ids (trace ?w3))"
    by (subst run) simp
  have b: "request_id ?c3 = 2"
    by (simp add: open_client_def)
  have u: "[1..2] = [1, 2 :: int]"
    by (simp add: upto_rec1)
  have c: "sent_ids (trace ?w3) = [JStr ''1'', JStr ''2'']"
    unfolding ids by (simp add: sample_simps u)
  show ?thesis
    by (simp only: a b c)
qed

subsection \<open>C2: responses with another id\<close>

text \<open>
  Claim C2. Frames that decode to an object whose \<^verbatim>\<open>id\<close> is not the id of the call in
  flight are received one by one and dropped: the call goes on exactly as its loop does
  on the frames behind them, with the same client state, and when nothing but such
  frames arrives the call never returns.
\<close>

theorem stale_responses_discarded:
  assumes "ws c = Some h" "link_ok w"
    "\<forall>ev\<in>set pre. stale_response loads (str_int (request_id c + 1)) ev"
  shows "call loads c (w\<lparr>inbox := pre @ rest\<rparr>) m p =
           (case wait_response loads (str_int (request_id c + 1)) h
                   (w\<lparr>inbox := rest,
                      trace := trace w @ IoSend h (make_request (request_id c + 1) m p)
                                 # replicate (length pre) (IoRecv h)\<rparr>) of
              None \<Rightarrow> None
            | Some (r, w2) \<Rightarrow> Some (r, c\<lparr>request_id := request_id c + 1\<rparr>, w2))
         \<and> call loads c (w\<lparr>inbox := pre\<rparr>) m p = None"
proof -
  let ?rid = "str_int (request_id c + 1)"
  let ?snd = "IoSend h (make_request (request_id c + 1) m p)"
  have skip: "\<And>rest. wait_response loads ?rid h (w\<lparr>inbox := pre @ rest, trace := trace w @ [?snd]\<rparr>) =
      wait_response loads ?rid h
        (w\<lparr>inbox := rest, trace := trace w @ ?snd # replicate (length pre) (IoRecv h)\<rparr>)"
    using wait_response_skip [of "w\<lparr>inbox := pre @ rest, trace := trace w @ [?snd]\<rparr>" pre loads ?rid rest h for rest]
      assms(2,3) by simp
  have none: "wait_response loads ?rid h
        (w\<lparr>inbox := [], trace := trace w @ ?snd # replicate (length pre) (IoRecv h)\<rparr>) = None"
    using assms(2) by (intro wait_response_empty) auto
  show ?thesis
    using assms(1,2) skip [of rest] skip [of "[]"] none
    by (simp add: call_def Let_def ws_send_def)
qed

text \<open>
  C2 at work: a notification and a response to call 1 arrive before the response to
  call 2.
\<close>

theorem stale_responses_discarded_witness:
  "call loads_table (open_client 1)
        (open_world [Frame msg_log, Frame msg_auth_ok, Frame msg_error2]) ''project.get_info'' None =
     Some (Inl (RPCError (JInt (- 32601)) (JStr ''Method not found'') JNull),
           open_client 2,
           \<lparr>accepting = True, link_ok = True, inbox = [],
            trace = [IoConnect ''ws://127.0.0.1:49631'',
                     IoSend 0 (make_request 2 ''project.get_info'' None),
                     IoRecv 0, IoRecv 0, IoRecv 0]\<rparr>)
   \<and> call loads_table (open_client 1) (open_world [Frame msg_log, Frame msg_auth_ok])
        ''project.get_info'' None = None"
proof -
  have m: "wait_response loads_table ''2'' 0
      \<lparr>accepting = True, link_ok = True, inbox = [Frame msg_error2],
       trace = [IoConnect ''ws://127.0.0.1:49631'',
                IoSend 0 (make_request 2 ''project.get_info'' None), IoRecv 0, IoRecv 0]\<rparr> =
    Some (Inl (RPCError (JInt (- 32601)) (JStr ''Method not found'') JNull),
       \<lparr>accepting = True, link_ok = True, inbox = [],
        trace = [IoConnect ''ws://127.0.0.1:49631'',
                 IoSend 0 (make_request 2 ''project.get_info'' None),
                 IoRecv 0, IoRecv 0, IoRecv 0]\<rparr>)"
    using wait_response_match
      [of "\<lparr>accepting = True, link_ok = True, inbox = [Frame msg_error2],
            trace = [IoConnect ''ws://127.0.0.1:49631'',
                     IoSend 0 (make_request 2 ''project.get_info'' None), IoRecv 0, IoRecv 0]\<rparr>"
          msg_error2 "[]" loads_table
          "[(''id'', JStr ''2''),
            (''error'', JObj [(''code'', JInt (- 32601)), (''message'', JStr ''Method not found'')])]"
          "''2''" 0]
    by (simp add: loads_table_def matched_response_def dict_get_def)
  show ?thesis
    using stale_responses_discarded
      [of "open_client 1" 0 "open_world []" "[Frame msg_log, Frame msg_auth_ok]" loads_table
          "[Frame msg_error2]" "''project.get_info''" None] m
    by (simp add: sample_simps)
qed

subsection \<open>C3: the error of a matched response\<close>

text \<open>
  Claim C3. When the response with the id of the call carries an \<^verbatim>\<open>error\<close> object, the
  call raises \<open>RPCError\<close> with the \<^verbatim>\<open>code\<close>, \<^verbatim>\<open>message\<close> and \<^verbatim>\<open>data\<close> members of that
  object (\<^verbatim>\<open>-1\<close>, \<^verbatim>\<open>"Unknown error"\<close> and \<^verbatim>\<open>None\<close> standing in for a missing member), which
  is none of the transport, decoding or usage failures.
\<close>

theorem rpc_error_from_matched_response:
  assumes "ws c = Some h" "link_ok w" "inbox w = pre @ Frame payload # rest"
    "\<forall>ev\<in>set pre. stale_response loads (str_int (request_id c + 1)) ev"
    "loads payload = Some (JObj response)"
    "map_of response ''id'' = Some (JStr (str_int (request_id c + 1)))"
    "map_of response ''error'' = Some (JObj e)"
  shows "(let failure = RPCError (dict_get e ''code'' (JInt (- 1)))
                                 (dict_get e ''message'' (JStr ''Unknown error''))
                                 (dict_get e ''data'' JNull)
          in call loads c w m p =
               Some (Inl failure,
                     c\<lparr>request_id := request_id c + 1\<rparr>,
                     w\<lparr>inbox := rest,
                       trace := trace w @ IoSend h (make_request (request_id c + 1) m p)
                                  # replicate (Suc (length pre)) (IoRecv h)\<rparr>)
             \<and> failure \<notin> {JSONDecodeError, AttributeError, ConnectionClosed, ConnectError,
                            OSError, ValidationError}
             \<and> (\<forall>s. failure \<noteq> RuntimeError s))"
  using call_matched [OF assms(1-6), of m p] assms(7)
  by (simp add: matched_response_def Let_def)

text \<open>
  C3 at work: the server answers call 2 with \<^verbatim>\<open>Method not found\<close>.
\<close>

theorem rpc_error_from_matched_response_witness:
  "call loads_table (open_client 1) (open_world [Frame msg_error2]) ''project.get_info'' None =
     Some (Inl (RPCError (JInt (- 32601)) (JStr ''Method not found'') JNull),
           open_client 2,
           \<lparr>accepting = True, link_ok = True, inbox = [],
            trace = [IoConnect ''ws://127.0.0.1:49631'',
                     IoSend 0 (make_request 2 ''project.get_info'' None), IoRecv 0]\<rparr>)"
  using rpc_error_from_matched_response
    [of "open_client 1" 0 "open_world [Frame msg_error2]" "[]" msg_error2 "[]" loads_table
        "[(''id'', JStr ''2''),
          (''error'', JObj [(''code'', JInt (- 32601)), (''message'', JStr ''Method not found'')])]"
        "[(''code'', JInt (- 32601)), (''message'', JStr ''Method not found'')]"
        "''project.get_info''" None]
  by (simp add: sample_simps)

subsection \<open>C4: the handshake and the authenticated flag\<close>

text \<open>
  Claim C4 as stated fails in two places. A result whose \<^verbatim>\<open>ok\<close> is the string \<^verbatim>\<open>"no"\<close>,
  which is not the value \<^verbatim>\<open>true\<close>, sets the flag, since \<^verbatim>\<open>connect\<close> tests the truth value of
  \<^verbatim>\<open>ok\<close>. And a handshake that does not set the flag leaves it as it was: on a client
  that an earlier handshake had authenticated, a result without \<^verbatim>\<open>ok\<close> makes \<^verbatim>\<open>connect\<close>
  answer \<^verbatim>\<open>False\<close> while the flag stays true.
\<close>

theorem handshake_ok_equals_true_counterexample:
  "connect loads_table (GodotClient_init sample_config) (idle_world [Frame msg_auth_no]) =
     Some (True,
           \<lparr>config = sample_config, ws = Some 0, request_id = 1, authenticated = True\<rparr>,
           \<lparr>accepting = True, link_ok = True, inbox = [],
            trace = [IoConnect ''ws://127.0.0.1:49631'',
                     IoSend 0 (make_request 1 ''auth.hello''
                                 (Some (hello_params (GodotClient_init sample_config)))),
                     IoRecv 0]\<rparr>)
   \<and> loads_table msg_auth_no =
       Some (JObj [(''id'', JStr ''1''), (''result'', JObj [(''ok'', JStr ''no'')])])
   \<and> JStr ''no'' \<noteq> JBool True
   \<and> connect loads_table ((open_client 1)\<lparr>authenticated := True\<rparr>)
        (open_world [Frame msg_bare2]) =
     Some (False,
           \<lparr>config = sample_config, ws = Some 1, request_id = 2, authenticated = True\<rparr>,
           \<lparr>accepting = True, link_ok = True, inbox = [],
            trace = [IoConnect ''ws://127.0.0.1:49631'', IoConnect ''ws://127.0.0.1:49631'',
                     IoSend 1 (make_request 2 ''auth.hello''
                                 (Some (hello_params (GodotClient_init sample_config)))),
                     IoRecv 1]\<rparr>)"
  using connect_matched
    [of "idle_world [Frame msg_auth_no]" "[]" msg_auth_no "[]" loads_table
        "GodotClient_init sample_config"
        "[(''id'', JStr ''1''), (''result'', JObj [(''ok'', JStr ''no'')])]"]
    connect_matched
    [of "open_world [Frame msg_bare2]" "[]" msg_bare2 "[]" loads_table
        "(open_client 1)\<lparr>authenticated := True\<rparr>" "[(''id'', JStr ''2'')]"]
  by (simp add: sample_simps hello_params_def)

text \<open>
  Claim C4, amended. \<^verbatim>\<open>connect\<close> never raises: it fails to return exactly when the socket
  opens and the handshake call never returns, and otherwise answers a boolean. The
  answer is true if and only if the socket opened and the handshake call returned an
  object whose \<^verbatim>\<open>ok\<close> member is true in Python's sense; the flag afterwards is the flag
  before or that answer, so a refused socket, a failed call and any other result leave
  the flag as it was. Spelled out for a matched response without \<^verbatim>\<open>error\<close> member, the
  answer is the truth value of the \<^verbatim>\<open>ok\<close> member of its result. No other operation sets
  the flag: \<^verbatim>\<open>call\<close> leaves it unchanged, \<^verbatim>\<open>close\<close> can only clear it, and a newly constructed
  client is not authenticated.
\<close>

theorem handshake_flag_iff_truthy_ok:
  fixes loads c w
  defines "c1 \<equiv> c\<lparr>ws := Some (length (trace w))\<rparr>"
    and "w1 \<equiv> w\<lparr>link_ok := True, trace := trace w @ [IoConnect (ws_url (config c))]\<rparr>"
  shows "(connect loads c w = None \<longleftrightarrow>
            accepting w \<and> call loads c1 w1 ''auth.hello'' (Some (hello_params c)) = None)
       \<and> (\<forall>b c' w'. connect loads c w = Some (b, c', w') \<longrightarrow>
            authenticated c' = (authenticated c \<or> b)
            \<and> (b \<longleftrightarrow> accepting w \<and>
                  (\<exists>d c2 w2. call loads c1 w1 ''auth.hello'' (Some (hello_params c)) =
                                Some (Inr (JObj d), c2, w2)
                             \<and> py_truthy (dict_get d ''ok'' JNull))))
       \<and> (\<forall>pre payload rest response.
            accepting w \<and> inbox w = pre @ Frame payload # rest
            \<and> (\<forall>ev\<in>set pre. stale_response loads (str_int (request_id c + 1)) ev)
            \<and> loads payload = Some (JObj response)
            \<and> map_of response ''id'' = Some (JStr (str_int (request_id c + 1)))
            \<and> map_of response ''error'' = None \<longrightarrow>
            (let h = length (trace w);
                 ok = (case dict_get response ''result'' (JObj []) of
                         JObj d \<Rightarrow> py_truthy (dict_get d ''ok'' JNull)
                       | _ \<Rightarrow> False)
             in connect loads c w =
                  Some (ok,
                        c\<lparr>ws := Some h, request_id := request_id c + 1,
                          authenticated := authenticated c \<or> ok\<rparr>,
                        w\<lparr>link_ok := True, inbox := rest,
                          trace := trace w @ IoConnect (ws_url (config c))
                                     # IoSend h (make_request (request_id c + 1) ''auth.hello''
                                                  (Some (hello_params c)))
                                     # replicate (Suc (length pre)) (IoRecv h)\<rparr>)))
       \<and> (\<forall>m p r c' w'. call loads c w m p = Some (r, c', w') \<longrightarrow>
            authenticated c' = authenticated c)
       \<and> (authenticated (fst (close c w)) \<longrightarrow> authenticated c)
       \<and> \<not> authenticated (GodotClient_init cfg)"
proof -
  have hp: "hello_params c1 = hello_params c"
    by (simp add: hello_params_def c1_def)
  have a: "connect loads c w = None \<longleftrightarrow>
            accepting w \<and> call loads c1 w1 ''auth.hello'' (Some (hello_params c)) = None"
    unfolding c1_def w1_def
    by (auto simp: connect_def ws_connect_def Let_def hello_params_def
             split: option.splits sum.splits json.splits if_splits)
  have b: "\<forall>b c' w'. connect loads c w = Some (b, c', w') \<longrightarrow>
            authenticated c' = (authenticated c \<or> b)
            \<and> (b \<longleftrightarrow> accepting w \<and>
                  (\<exists>d c2 w2. call loads c1 w1 ''auth.hello'' (Some (hello_params c)) =
                                Some (Inr (JObj d), c2, w2)
                             \<and> py_truthy (dict_get d ''ok'' JNull)))"
  proof (intro allI impI)
    fix b c' w'
    assume r: "connect loads c w = Some (b, c', w')"
    show "authenticated c' = (authenticated c \<or> b)
            \<and> (b \<longleftrightarrow> accepting w \<and>
                  (\<exists>d c2 w2. call loads c1 w1 ''auth.hello'' (Some (hello_params c)) =
                                Some (Inr (JObj d), c2, w2)
                             \<and> py_truthy (dict_get d ''ok'' JNull)))"
    proof (cases "accepting w")
      case False
      with r show ?thesis by (auto simp: connect_def ws_connect_def)
    next
      case True
      with r obtain res c2 w2 where
        cl: "call loads c1 w1 ''auth.hello'' (Some (hello_params c)) = Some (res, c2, w2)"
        unfolding c1_def w1_def
        by (auto simp: connect_def ws_connect_def Let_def hello_params_def split: option.splits)
      from call_authenticated [OF cl] have au: "authenticated c2 = authenticated c"
        by (simp add: c1_def)
      from r True cl au show ?thesis
        unfolding c1_def w1_def
        by (auto simp: connect_def ws_connect_def Let_def hello_params_def
                 split: sum.splits json.splits if_splits)
    qed
  qed
  have c: "\<forall>pre payload rest response.
            accepting w \<and> inbox w = pre @ Frame payload # rest
            \<and> (\<forall>ev\<in>set pre. stale_response loads (str_int (request_id c + 1)) ev)
            \<and> loads payload = Some (JObj response)
            \<and> map_of response ''id'' = Some (JStr (str_int (request_id c + 1)))
            \<and> map_of response ''error'' = None \<longrightarrow>
            (let h = length (trace w);
                 ok = (case dict_get response ''result'' (JObj []) of
                         JObj d \<Rightarrow> py_truthy (dict_get d ''ok'' JNull)
                       | _ \<Rightarrow> False)
             in connect loads c w =
                  Some (ok,
                        c\<lparr>ws := Some h, request_id := request_id c + 1,
                          authenticated := authenticated c \<or> ok\<rparr>,
                        w\<lparr>link_ok := True, inbox := rest,
                          trace := trace w @ IoConnect (ws_url (config c))
                                     # IoSend h (make_request (request_id c + 1) ''auth.hello''
                                                  (Some (hello_params c)))
                                     # replicate (Suc (length pre)) (IoRecv h)\<rparr>))"
  proof (intro allI impI, elim conjE)
    fix pre payload rest response
    assume h: "accepting w" "inbox w = pre @ Frame payload # rest"
      "\<forall>ev\<in>set pre. stale_response loads (str_int (request_id c + 1)) ev"
      "loads payload = Some (JObj response)"
      "map_of response ''id'' = Some (JStr (str_int (request_id c + 1)))"
      "map_of response ''error'' = None"
    have same: "\<And>x. authenticated x \<Longrightarrow> x\<lparr>authenticated := True\<rparr> = x"
      by simp
    show "let h = length (trace w);
                 ok = (case dict_get response ''result'' (JObj []) of
                         JObj d \<Rightarrow> py_truthy (dict_get d ''ok'' JNull)
                       | _ \<Rightarrow> False)
             in connect loads c w =
                  Some (ok,
                        c\<lparr>ws := Some h, request_id := request_id c + 1,
                          authenticated := authenticated c \<or> ok\<rparr>,
                        w\<lparr>link_ok := True, inbox := rest,
                          trace := trace w @ IoConnect (ws_url (config c))
                                     # IoSend h (make_request (request_id c + 1) ''auth.hello''
                                                  (Some (hello_params c)))
                                     # replicate (Suc (length pre)) (IoRecv h)\<rparr>)"
      unfolding connect_matched [OF h]
      by (cases "dict_get response ''result'' (JObj [])") (simp_all add: Let_def)
  qed
  have d: "\<forall>m p r c' w'. call loads c w m p = Some (r, c', w') \<longrightarrow>
            authenticated c' = authenticated c"
    using call_authenticated by blast
  have e: "authenticated (fst (close c w)) \<longrightarrow> authenticated c"
    by (simp add: close_def split: option.splits)
  have f: "\<not> authenticated (GodotClient_init cfg)"
    by (simp add: GodotClient_init_def)
  from a b c d e f show ?thesis by blast
qed

text \<open>
  C4 at work: the round trip with \<^verbatim>\<open>ok\<close> true and editor version 4.3, and a server that
  refuses the socket.
\<close>

theorem handshake_flag_iff_truthy_ok_witness:
  "connect loads_table (GodotClient_init sample_config)
       (idle_world [Frame msg_log, Frame msg_auth_ok]) =
     Some (True,
           \<lparr>config = sample_config, ws = Some 0, request_id = 1, authenticated = True\<rparr>,
           \<lparr>accepting = True, link_ok = True, inbox = [],
            trace = [IoConnect ''ws://127.0.0.1:49631'',
                     IoSend 0 (make_request 1 ''auth.hello''
                                 (Some (hello_params (GodotClient_init sample_config)))),
                     IoRecv 0, IoRecv 0]\<rparr>)
   \<and> (connect loads_table (GodotClient_init sample_config)
         ((idle_world [Frame msg_auth_ok])\<lparr>accepting := False\<rparr>) =
       Some (False, GodotClient_init sample_config,
             \<lparr>accepting = False, link_ok = False, inbox = [Frame msg_auth_ok],
              trace = [IoConnect ''ws://127.0.0.1:49631'']\<rparr>)
      \<and> authenticated (GodotClient_init sample_config) =
          (authenticated (GodotClient_init sample_config) \<or> False))"
proof -
  let ?c0 = "GodotClient_init sample_config"
  let ?wr = "(idle_world [Frame msg_auth_ok])\<lparr>accepting := False\<rparr>"
  let ?wr' = "\<lparr>accepting = False, link_ok = False, inbox = [Frame msg_auth_ok],
              trace = [IoConnect ''ws://127.0.0.1:49631'']\<rparr>"
  note ok = handshake_flag_iff_truthy_ok
    [of loads_table ?c0 "idle_world [Frame msg_log, Frame msg_auth_ok]" sample_config,
     THEN conjunct2, THEN conjunct2, THEN conjunct1, rule_format,
     of "[Frame msg_log]" msg_auth_ok "[]"
        "[(''id'', JStr ''1''),
          (''result'', JObj [(''ok'', JBool True), (''editor_version'', JStr ''4.3'')])]"]
  have refused: "connect loads_table ?c0 ?wr = Some (False, ?c0, ?wr')"
    by (simp add: connect_def ws_connect_def sample_simps)
  note flag = handshake_flag_iff_truthy_ok
    [of loads_table ?c0 ?wr sample_config,
     THEN conjunct2, THEN conjunct1, rule_format, OF refused, THEN conjunct1]
  from ok refused flag show ?thesis
    by (simp add: sample_simps hello_params_def)
qed

subsection \<open>C5: the port of a token file\<close>

text \<open>
  Claim C5 as stated fails: with \<^verbatim>\<open>GODOT_WS_URL\<close> set to \<^verbatim>\<open>wss://godot.example:9000\<close> and
  port 5000 in the token file, the endpoint becomes \<^verbatim>\<open>ws://127.0.0.1:5000\<close>; neither the
  host nor the scheme survives.
\<close>

theorem port_keeps_host_and_scheme_counterexample:
  "load_config loads_table no_repr (env_of [] ''/tmp/godot_token'')
       (fs_of (file_full @ [CHR 0x0A])) =
     Inr \<lparr>ws_url = ''ws://127.0.0.1:5000'', token = ''abc'', token_file = ''/tmp/godot_token''\<rparr>
   \<and> environ_get (env_of [] ''/tmp/godot_token'') ''GODOT_WS_URL'' ''ws://127.0.0.1:49631'' =
       ''wss://godot.example:9000''
   \<and> ''ws://127.0.0.1:5000'' \<noteq> ''wss://godot.example:5000''"
  by (simp add: config_simps)

text \<open>
  Claim C5, amended. When no token is given in the environment and the token file
  exists and holds a JSON object with a \<^verbatim>\<open>port\<close> member, the endpoint is
  \<^verbatim>\<open>ws://127.0.0.1:\<close> followed by that port, whatever the endpoint was before.
\<close>

theorem port_override_rebuilds_loopback_url:
  assumes "environ_get env ''GODOT_TOKEN'' '''' = []"
    and "environ_get env ''GODOT_TOKEN_FILE'' '''' = tf" and "tf \<noteq> []"
    and "fs tf = Some (File raw)"
    and "loads (strip raw) = Some (JObj data)"
    and "map_of data ''port'' = Some p"
    and "dict_get data ''token'' (JStr (strip raw)) = JStr t"
  shows "load_config loads rp env fs =
           Inr \<lparr>ws_url = ''ws://127.0.0.1:'' @ py_str rp p, token = t, token_file = tf\<rparr>"
  using assms by (simp add: load_config_def Let_def GodotConfig_new_def)

text \<open>
  C5 at work on the same token file.
\<close>

theorem port_override_rebuilds_loopback_url_witness:
  "load_config loads_table no_repr (env_of [] ''/tmp/godot_token'') (fs_of file_full) =
     Inr \<lparr>ws_url = ''ws://127.0.0.1:5000'', token = ''abc'', token_file = ''/tmp/godot_token''\<rparr>"
  using port_override_rebuilds_loopback_url
    [of "env_of [] ''/tmp/godot_token''" "''/tmp/godot_token''" "fs_of file_full"
        file_full loads_table "[(''token'', JStr ''abc''), (''port'', JInt 5000)]"
        "JInt 5000" "''abc''" no_repr]
  by (simp add: environ_get_def env_of_def fs_of_def strip_def py_isspace_def loads_table_def
        dict_get_def str_int_eval)

subsection \<open>C6: where the token comes from\<close>

text \<open>
  Claim C6 as stated fails: a token file holding the JSON object \<^verbatim>\<open>{"port": 5000}\<close> has
  no \<^verbatim>\<open>token\<close> member and is not plain text, yet the token is not empty: it is the whole
  content of the file.
\<close>

theorem token_precedence_counterexample:
  "load_config loads_table no_repr (env_of [] ''/tmp/godot_token'') (fs_of file_port) =
     Inr \<lparr>ws_url = ''ws://127.0.0.1:5000'', token = file_port,
          token_file = ''/tmp/godot_token''\<rparr>
   \<and> loads_table file_port = Some (JObj [(''port'', JInt 5000)])
   \<and> file_port \<noteq> []"
  by (simp add: config_simps)

text \<open>
  Claim C6, amended. A non-empty token of the environment is used. Otherwise, when a
  token file is named and exists: the \<^verbatim>\<open>token\<close> member of its JSON object when that is a
  string; the stripped content when the object has no \<^verbatim>\<open>token\<close> member; the stripped
  content when the file is not JSON. Otherwise, when no token file is named or it does
  not exist, the empty token.
\<close>

theorem token_resolution:
  fixes env fs loads rp
  defines "tok \<equiv> environ_get env ''GODOT_TOKEN'' ''''"
    and "tf \<equiv> environ_get env ''GODOT_TOKEN_FILE'' ''''"
  shows "(tok \<noteq> [] \<longrightarrow>
            (\<exists>cfg. load_config loads rp env fs = Inr cfg \<and> token cfg = tok))
       \<and> (\<forall>raw data t. tok = [] \<and> tf \<noteq> [] \<and> fs tf = Some (File raw) \<and>
              loads (strip raw) = Some (JObj data) \<and> map_of data ''token'' = Some (JStr t) \<longrightarrow>
            (\<exists>cfg. load_config loads rp env fs = Inr cfg \<and> token cfg = t))
       \<and> (\<forall>raw data. tok = [] \<and> tf \<noteq> [] \<and> fs tf = Some (File raw) \<and>
              loads (strip raw) = Some (JObj data) \<and> map_of data ''token'' = None \<longrightarrow>
            (\<exists>cfg. load_config loads rp env fs = Inr cfg \<and> token cfg = strip raw))
       \<and> (\<forall>raw. tok = [] \<and> tf \<noteq> [] \<and> fs tf = Some (File raw) \<and> loads (strip raw) = None \<longrightarrow>
            (\<exists>cfg. load_config loads rp env fs = Inr cfg \<and> token cfg = strip raw))
       \<and> (tok = [] \<and> (tf = [] \<or> fs tf = None) \<longrightarrow>
            (\<exists>cfg. load_config loads rp env fs = Inr cfg \<and> token cfg = []))"
  unfolding tok_def tf_def
  by (auto simp: load_config_def Let_def GodotConfig_new_def dict_get_def)

text \<open>
  C6 at work, one configuration for each of the five cases.
\<close>

theorem token_resolution_witness:
  "(\<exists>cfg. load_config loads_table no_repr (env_of ''explicit'' ''/tmp/godot_token'')
             (fs_of file_full) = Inr cfg \<and> token cfg = ''explicit'')
   \<and> (\<exists>cfg. load_config loads_table no_repr (env_of [] ''/tmp/godot_token'')
             (fs_of file_full) = Inr cfg \<and> token cfg = ''abc'')
   \<and> (\<exists>cfg. load_config loads_table no_repr (env_of [] ''/tmp/godot_token'')
             (fs_of file_port) = Inr cfg \<and> token cfg = file_port)
   \<and> (\<exists>cfg. load_config loads_table no_repr (env_of [] ''/tmp/godot_token'')
             (fs_of (CHR 0xA0 # ''s3cret'' @ [CHR 0x85])) = Inr cfg \<and> token cfg = ''s3cret'')
   \<and> (\<exists>cfg. load_config loads_table no_repr (env_of [] ''/tmp/missing'')
             (fs_of file_full) = Inr cfg \<and> token cfg = [])"
proof -
  have e: "strip (CHR 0xA0 # ''s3cret'' @ [CHR 0x85]) = ''s3cret''" "strip file_full = file_full"
    "strip file_port = file_port"
    by (simp_all add: strip_def py_isspace_def)
  have l: "loads_table ''s3cret'' = None"
    "loads_table file_full = Some (JObj [(''token'', JStr ''abc''), (''port'', JInt 5000)])"
    "loads_table file_port = Some (JObj [(''port'', JInt 5000)])"
    by (simp_all add: loads_table_def)
  note ev = environ_get_def env_of_def fs_of_def
  have "\<exists>cfg. load_config loads_table no_repr (env_of ''explicit'' ''/tmp/godot_token'')
             (fs_of file_full) = Inr cfg \<and> token cfg = ''explicit''"
    using token_resolution [of "env_of ''explicit'' ''/tmp/godot_token''" loads_table no_repr
        "fs_of file_full"]
    by (simp add: ev)
  moreover have "\<exists>cfg. load_config loads_table no_repr (env_of [] ''/tmp/godot_token'')
             (fs_of file_full) = Inr cfg \<and> token cfg = ''abc''"
    using token_resolution [of "env_of [] ''/tmp/godot_token''" loads_table no_repr
        "fs_of file_full"] e l
    by (simp add: ev)
  moreover have "\<exists>cfg. load_config loads_table no_repr (env_of [] ''/tmp/godot_token'')
             (fs_of file_port) = Inr cfg \<and> token cfg = file_port"
    using token_resolution [of "env_of [] ''/tmp/godot_token''" loads_table no_repr
        "fs_of file_port"] e l
    by (simp add: ev)
  moreover have "\<exists>cfg. load_config loads_table no_repr (env_of [] ''/tmp/godot_token'')
             (fs_of (CHR 0xA0 # ''s3cret'' @ [CHR 0x85])) = Inr cfg \<and> token cfg = ''s3cret''"
    using token_resolution [of "env_of [] ''/tmp/godot_token''" loads_table no_repr
        "fs_of (CHR 0xA0 # ''s3cret'' @ [CHR 0x85])"] e l
    by (simp add: ev)
  moreover have "\<exists>cfg. load_config loads_table no_repr (env_of [] ''/tmp/missing'')
             (fs_of file_full) = Inr cfg \<and> token cfg = []"
    using token_resolution [of "env_of [] ''/tmp/missing''" loads_table no_repr
        "fs_of file_full"]
    by (simp add: ev)
  ultimately show ?thesis by blast
qed

subsection \<open>C7: the result of a matched response\<close>

text \<open>
  Claim C7 as stated fails: a matched response that carries a result and
  \<^verbatim>\<open>"error": null\<close> has no error object, yet the call does not return the result; it
  raises \<^verbatim>\<open>AttributeError\<close>, because \<^verbatim>\<open>call\<close> tests whether the key \<^verbatim>\<open>error\<close> is present.
\<close>

theorem null_error_member_counterexample:
  "call loads_table (open_client 1) (open_world [Frame msg_null_error2]) ''project.get_info'' None =
     Some (Inl AttributeError, open_client 2,
           \<lparr>accepting = True, link_ok = True, inbox = [],
            trace = [IoConnect ''ws://127.0.0.1:49631'',
                     IoSend 0 (make_request 2 ''project.get_info'' None), IoRecv 0]\<rparr>)
   \<and> loads_table msg_null_error2 =
       Some (JObj [(''id'', JStr ''2''), (''result'', JObj [(''ok'', JBool True)]),
                   (''error'', JNull)])"
  using call_matched
    [of "open_client 1" 0 "open_world [Frame msg_null_error2]" "[]" msg_null_error2 "[]"
        loads_table
        "[(''id'', JStr ''2''), (''result'', JObj [(''ok'', JBool True)]), (''error'', JNull)]"
        "''project.get_info''" None]
  by (simp add: sample_simps matched_response_def)

text \<open>
  Claim C7, amended. When the response with the id of the call has no \<^verbatim>\<open>error\<close> member,
  the call returns its \<^verbatim>\<open>result\<close> member, and the empty dict when there is none.
\<close>

theorem result_from_matched_response:
  assumes "ws c = Some h" "link_ok w" "inbox w = pre @ Frame payload # rest"
    "\<forall>ev\<in>set pre. stale_response loads (str_int (request_id c + 1)) ev"
    "loads payload = Some (JObj response)"
    "map_of response ''id'' = Some (JStr (str_int (request_id c + 1)))"
    "map_of response ''error'' = None"
  shows "call loads c w m p =
     Some (Inr (case map_of response ''result'' of None \<Rightarrow> JObj [] | Some v \<Rightarrow> v),
           c\<lparr>request_id := request_id c + 1\<rparr>,
           w\<lparr>inbox := rest,
             trace := trace w @ IoSend h (make_request (request_id c + 1) m p)
                        # replicate (Suc (length pre)) (IoRecv h)\<rparr>)"
  using call_matched [OF assms(1-6), of m p] assms(7)
  by (simp add: matched_response_def dict_get_def)

text \<open>
  C7 at work: a response that carries nothing but the id.
\<close>

theorem result_from_matched_response_witness:
  "call loads_table (open_client 1) (open_world [Frame msg_log, Frame msg_bare2, Frame msg_log])
        ''editor.save_all'' None =
     Some (Inr (JObj []), open_client 2,
           \<lparr>accepting = True, link_ok = True, inbox = [Frame msg_log],
            trace = [IoConnect ''ws://127.0.0.1:49631'',
                     IoSend 0 (make_request 2 ''editor.save_all'' None), IoRecv 0, IoRecv 0]\<rparr>)"
  using result_from_matched_response
    [of "open_client 1" 0 "open_world [Frame msg_log, Frame msg_bare2, Frame msg_log]"
        "[Frame msg_log]" msg_bare2 "[Frame msg_log]" loads_table
        "[(''id'', JStr ''2'')]" "''editor.save_all''" None]
  by (simp add: sample_simps)

subsection \<open>C8: calling without a connection\<close>

text \<open>
  Claim C8. A call on a client that has no socket raises \<^verbatim>\<open>RuntimeError\<close> and leaves the
  client and the world as they were: nothing is sent, nothing is received, and no
  request id is used up.
\<close>

theorem not_connected_no_io:
  "ws c = None \<Longrightarrow>
     call loads c w method params = Some (Inl (RuntimeError ''Not connected to Godot''), c, w)"
  by (simp add: call_def)

text \<open>
  C8 at work on a newly constructed client.
\<close>

theorem not_connected_no_io_witness:
  "call loads_table (GodotClient_init sample_config) (idle_world []) ''project.get_info'' None =
     Some (Inl (RuntimeError ''Not connected to Godot''),
           GodotClient_init sample_config, idle_world [])"
proof -
  have "ws (GodotClient_init sample_config) = None"
    by (simp add: GodotClient_init_def)
  then show ?thesis by (rule not_connected_no_io)
qed

subsection \<open>C9: closing\<close>

text \<open>
  Claim C9. Closing a client that has no socket changes nothing. Closing one that has a
  socket closes that socket and clears both the handle and the authenticated flag,
  whatever state the client and the world are in. Afterwards there is no socket, and
  closing again changes nothing.
\<close>

theorem close_idempotent:
  "(ws c = None \<longrightarrow> close c w = (c, w)) \<and>
   (\<forall>h. ws c = Some h \<longrightarrow>
      close c w = (c\<lparr>ws := None, authenticated := False\<rparr>,
                   w\<lparr>link_ok := False, trace := trace w @ [IoClose h]\<rparr>)) \<and>
   ws (fst (close c w)) = None \<and>
   close (fst (close c w)) (snd (close c w)) = close c w"
  by (auto simp: close_def ws_close_def split: option.splits)

text \<open>
  C9 at work: an authenticated client after three calls, and a client never connected.
\<close>

theorem close_idempotent_witness:
  "close (open_client 3 \<lparr>authenticated := True\<rparr>) (open_world []) =
     ((GodotClient_init sample_config)\<lparr>request_id := 3\<rparr>,
      \<lparr>accepting = True, link_ok = False, inbox = [],
       trace = [IoConnect ''ws://127.0.0.1:49631'', IoClose 0]\<rparr>)
   \<and> close (GodotClient_init sample_config) (idle_world []) =
       (GodotClient_init sample_config, idle_world [])"
  using close_idempotent [of "open_client 3 \<lparr>authenticated := True\<rparr>" "open_world []"]
    close_idempotent [of "GodotClient_init sample_config" "idle_world []"]
  by (simp add: sample_simps)

subsection \<open>C10: a token file that is JSON but not an object\<close>

text \<open>
  Claim C10. When no token is given in the environment and the token file exists and
  decodes to a JSON value that is not an object, loading the configuration raises
  \<^verbatim>\<open>AttributeError\<close>: no configuration is returned and the content is not taken as the
  token.
\<close>

theorem non_object_json_token_file_raises:
  assumes "environ_get env ''GODOT_TOKEN'' '''' = []"
    and "environ_get env ''GODOT_TOKEN_FILE'' '''' = tf" and "tf \<noteq> []"
    and "fs tf = Some (File raw)"
    and "loads (strip raw) = Some v"
    and "\<forall>d. v \<noteq> JObj d"
  shows "load_config loads rp env fs = Inl AttributeError"
  using assms by (cases v) (simp_all add: load_config_def Let_def)

text \<open>
  C10 at work on a bare number and on an array.
\<close>

theorem non_object_json_token_file_raises_witness:
  "load_config loads_table no_repr (env_of [] ''/tmp/godot_token'') (fs_of ''42'') =
     Inl AttributeError
   \<and> load_config loads_table no_repr (env_of [] ''/tmp/godot_token'') (fs_of ''[1, 2]'') =
       Inl AttributeError"
  using non_object_json_token_file_raises
      [of "env_of [] ''/tmp/godot_token''" "''/tmp/godot_token''" "fs_of ''42''" "''42''"
          loads_table "JInt 42" no_repr]
    non_object_json_token_file_raises
      [of "env_of [] ''/tmp/godot_token''" "''/tmp/godot_token''" "fs_of ''[1, 2]''" "''[1, 2]''"
          loads_table "JArr [JInt 1, JInt 2]" no_repr]
  by (simp add: environ_get_def env_of_def fs_of_def strip_def py_isspace_def loads_table_def)

end
